theory Spec2Isabelle
  imports Main
begin

section \<open>The Python library functions that cors.py calls\<close>

text \<open>
  Header names and values are strings of 8-bit characters, as a WSGI server hands them to
  the application. The functions of this section are those of the Python 3 standard
  library that cors.py uses: \<^verbatim>\<open>any\<close>, \<^verbatim>\<open>str.join\<close>, \<^verbatim>\<open>str.split\<close> without argument,
  \<^verbatim>\<open>str\<close> of an integer and \<^verbatim>\<open>fnmatch.fnmatchcase\<close>.
\<close>

subsection \<open>any, join, split, str\<close>

primrec py_any :: "bool list \<Rightarrow> bool" where
  "py_any [] = False"
| "py_any (b # bs) = (b \<or> py_any bs)"

fun join :: "string \<Rightarrow> string list \<Rightarrow> string" where
  "join sep [] = []"
| "join sep [x] = x"
| "join sep (x # y # ys) = x @ sep @ join sep (y # ys)"

definition isspace :: "char \<Rightarrow> bool" where
  \<comment> \<open>the characters below 256 that \<^verbatim>\<open>str.isspace\<close> accepts\<close>
  "isspace c = (let n = (of_char c :: nat) in
     (9 \<le> n \<and> n \<le> 13) \<or> (28 \<le> n \<and> n \<le> 32) \<or> n = 133 \<or> n = 160)"

text \<open>
  \<^verbatim>\<open>s.split()\<close>: the maximal runs of non-whitespace characters of \<open>s\<close>, in order. The
  first argument of \<open>split_from\<close> is the word read so far.
\<close>

fun split_from :: "string \<Rightarrow> string \<Rightarrow> string list" where
  "split_from w [] = (if w = [] then [] else [w])"
| "split_from w (c # cs) =
     (if isspace c then (if w = [] then split_from [] cs else w # split_from [] cs)
      else split_from (w @ [c]) cs)"

definition split :: "string \<Rightarrow> string list" where
  "split s = split_from [] s"

definition digit_char :: "nat \<Rightarrow> char" where
  "digit_char d = char_of (48 + d)"

fun digits :: "nat \<Rightarrow> string" where
  "digits n = (if n < 10 then [digit_char n] else digits (n div 10) @ [digit_char (n mod 10)])"

declare digits.simps [simp del]

definition str :: "int \<Rightarrow> string" where
  "str i = (if i < 0 then CHR ''-'' # digits (nat (- i)) else digits (nat i))"

subsection \<open>fnmatch.fnmatchcase\<close>

text \<open>
  \<^verbatim>\<open>fnmatchcase(name, pat)\<close> translates the pattern into a regular expression and matches
  the whole name against it, with no case normalisation. The translation reads the
  pattern from left to right: \<^verbatim>\<open>*\<close> matches any string, \<^verbatim>\<open>?\<close> any one character, a
  bracket expression \<^verbatim>\<open>[seq]\<close> or \<^verbatim>\<open>[!seq]\<close> one character in (not in) the set, and every
  other character itself. A \<^verbatim>\<open>[\<close> without a closing \<^verbatim>\<open>]\<close> is an ordinary character.
  Versions of the library differ on a range whose upper bound comes before its lower
  bound; here such a range holds no character.
\<close>

datatype set_item = Single char | Range char char

datatype token = Star | AnyChar | Lit char | CharSet bool "set_item list"

text \<open>
  The items of a bracket expression: a hyphen between two characters makes a range, a
  hyphen at the end is a character of the set, and so is the first character whatever
  it is.
\<close>

fun set_items :: "string \<Rightarrow> set_item list" where
  "set_items [] = []"
| "set_items [c] = [Single c]"
| "set_items [c, d] = [Single c, Single d]"
| "set_items (c # d # e # cs) =
     (if d = CHR ''-'' then Range c e # set_items cs else Single c # set_items (d # e # cs))"

text \<open>
  \<open>find_close\<close> looks for the \<^verbatim>\<open>]\<close> that ends a bracket expression: it returns the text
  before it and the text after it, or \<open>None\<close> when there is none. \<open>bracket\<close> is given the
  pattern after a \<^verbatim>\<open>[\<close>; a leading \<^verbatim>\<open>!\<close> and then a leading \<^verbatim>\<open>]\<close> are skipped by the
  search, so that they belong to the expression.
\<close>

fun find_close :: "string \<Rightarrow> (string \<times> string) option" where
  "find_close [] = None"
| "find_close (c # cs) =
     (if c = CHR '']'' then Some ([], cs)
      else (case find_close cs of None \<Rightarrow> None | Some (a, b) \<Rightarrow> Some (c # a, b)))"

definition close_after :: "string \<Rightarrow> string \<Rightarrow> (string \<times> string) option" where
  "close_after pre s = (case find_close s of None \<Rightarrow> None | Some (a, b) \<Rightarrow> Some (pre @ a, b))"

definition bracket :: "string \<Rightarrow> (token \<times> string) option" where
  "bracket s =
     (let (neg, s1) = (case s of c # cs \<Rightarrow> if c = CHR ''!'' then (True, cs) else (False, s)
                                | [] \<Rightarrow> (False, s));
          found = (case s1 of c # cs \<Rightarrow> if c = CHR '']'' then close_after [c] cs
                                          else close_after [] s1
                             | [] \<Rightarrow> None)
      in (case found of None \<Rightarrow> None
          | Some (stuff, rest) \<Rightarrow> Some (CharSet neg (set_items stuff), rest)))"

lemma find_close_length: "find_close s = Some (a, b) \<Longrightarrow> length b < length s"
  by (induction s arbitrary: a b) (auto split: if_splits option.splits)

lemma bracket_length: "bracket s = Some (t, rest) \<Longrightarrow> length rest \<le> length s"
  by (auto simp: bracket_def close_after_def Let_def split: list.splits if_splits option.splits prod.splits
           dest!: find_close_length)

function translate :: "string \<Rightarrow> token list" where
  "translate [] = []"
| "translate (c # cs) =
     (if c = CHR ''*'' then Star # translate cs
      else if c = CHR ''?'' then AnyChar # translate cs
      else if c = CHR ''['' then
        (case bracket cs of None \<Rightarrow> Lit c # translate cs
         | Some (t, rest) \<Rightarrow> t # translate rest)
      else Lit c # translate cs)"
  by pat_completeness auto
termination
  by (relation "measure length") (auto dest: bracket_length)

fun in_item :: "char \<Rightarrow> set_item \<Rightarrow> bool" where
  "in_item c (Single d) = (c = d)"
| "in_item c (Range lo hi) = ((of_char lo :: nat) \<le> of_char c \<and> (of_char c :: nat) \<le> of_char hi)"

fun matches_char :: "token \<Rightarrow> char \<Rightarrow> bool" where
  "matches_char Star c = True"
| "matches_char AnyChar c = True"
| "matches_char (Lit d) c = (c = d)"
| "matches_char (CharSet neg items) c = (list_ex (in_item c) items \<noteq> neg)"

fun match :: "token list \<Rightarrow> string \<Rightarrow> bool" where
  "match [] s = (s = [])"
| "match (Star # ts) [] = match ts []"
| "match (Star # ts) (c # cs) = (match ts (c # cs) \<or> match (Star # ts) cs)"
| "match (t # ts) [] = False"
| "match (t # ts) (c # cs) = (matches_char t c \<and> match ts cs)"

definition fnmatchcase :: "string \<Rightarrow> string \<Rightarrow> bool" where
  "fnmatchcase name pat = match (translate pat) name"

text \<open>A literal pattern has none of the characters \<^verbatim>\<open>*\<close>, \<^verbatim>\<open>?\<close> and \<^verbatim>\<open>[\<close>.\<close>

definition literal :: "string \<Rightarrow> bool" where
  "literal pat = (\<forall>c\<in>set pat. c \<noteq> CHR ''*'' \<and> c \<noteq> CHR ''?'' \<and> c \<noteq> CHR ''['')"


section \<open>Requests, responses and services\<close>

text \<open>
  \<^verbatim>\<open>request.errors\<close> is a list to which \<^verbatim>\<open>add(location, name, description)\<close> appends one
  entry.
\<close>

record error =
  location :: string
  name :: string
  description :: string

definition add :: "error list \<Rightarrow> string \<Rightarrow> string \<Rightarrow> string \<Rightarrow> error list" where
  "add errs loc n d = errs @ [\<lparr>location = loc, name = n, description = d\<rparr>]"

text \<open>
  \<^verbatim>\<open>_cors_filter\<close> compares \<^verbatim>\<open>request.method\<close> with the constant \<^verbatim>\<open>'OPTIONS'\<close> by \<^verbatim>\<open>is not\<close>,
  which in Python compares the identity of two objects, not their characters. The method
  of a request (\<open>request_method\<close>, for \<^verbatim>\<open>request.method\<close>) is therefore a string object:
  its address and its characters. Two objects at one address are the same object; two
  objects with the same characters need not be.
\<close>

record str_object =
  address :: nat
  chars :: string

definition OPTIONS :: str_object where
  \<comment> \<open>the constant \<^verbatim>\<open>'OPTIONS'\<close> of cors.py\<close>
  "OPTIONS = \<lparr>address = 0, chars = ''OPTIONS''\<rparr>"

definition is_not :: "str_object \<Rightarrow> str_object \<Rightarrow> bool" where
  "is_not a b = (address a \<noteq> address b)"

text \<open>
  The headers of a request and of a response are maps from the name of a header, in the
  spelling the code uses, to its value. \<^verbatim>\<open>request.errors\<close> and \<^verbatim>\<open>request.response\<close> are the state
  the functions change; they return the request with the new state.
\<close>

record response =
  headers :: "string \<rightharpoonup> string"

record request =
  request_method :: str_object
  headers :: "string \<rightharpoonup> string"
  errors :: "error list"
  response :: response

text \<open>
  The service is the object the closures of cors.py and pyramidhook.py are built over.
  Its class is in neither file; the functions below read these attributes and methods of
  it (\<open>cors_supported_origins\<close> is read by pyramidhook.py only).
\<close>

record service =
  cors_supported_headers :: "string list"
  cors_supported_methods :: "string list"
  cors_origins_for :: "string \<Rightarrow> string list"
  cors_support_credentials :: "string \<Rightarrow> bool"
  cors_max_age_for :: "string \<Rightarrow> int option"
  cors_supported_origins :: "string list"

section \<open>cors.py\<close>

text \<open>
  \<^verbatim>\<open>request.errors.add(...)\<close> and \<^verbatim>\<open>response.headers[k] = v\<close> on the response of the request.
\<close>

definition errors_add :: "request \<Rightarrow> string \<Rightarrow> string \<Rightarrow> string \<Rightarrow> request" where
  "errors_add req loc n d = req\<lparr>errors := add (errors req) loc n d\<rparr>"

definition set_header :: "response \<Rightarrow> string \<Rightarrow> string \<Rightarrow> response" where
  "set_header resp k v = resp\<lparr>response.headers := (response.headers resp)(k \<mapsto> v)\<rparr>"

definition set_response_header :: "request \<Rightarrow> string \<Rightarrow> string \<Rightarrow> request" where
  "set_response_header req k v = req\<lparr>response := set_header (response req) k v\<rparr>"

text \<open>
  The truth value Python gives to the result of \<^verbatim>\<open>request.headers.get(k)\<close>: \<^verbatim>\<open>None\<close> and the
  empty string are false.
\<close>

fun truthy :: "string option \<Rightarrow> bool" where
  "truthy None = False"
| "truthy (Some v) = (v \<noteq> [])"

subsection \<open>The preflight view\<close>

text \<open>The loop \<^verbatim>\<open>for h in requested_headers\<close> of \<^verbatim>\<open>_preflight_view\<close>.\<close>

fun check_headers :: "string list \<Rightarrow> string list \<Rightarrow> request \<Rightarrow> request" where
  "check_headers supported_headers [] req = req"
| "check_headers supported_headers (h # hs) req =
     check_headers supported_headers hs
       (if \<not> h \<in> set supported_headers
        then errors_add req ''header'' ''Access-Control-Request-Headers''
               (''Header '' @ [CHR 0x22] @ h @ [CHR 0x22] @ '' not allowed'')
        else req)"

text \<open>
  \<^verbatim>\<open>_preflight_view\<close> returns \<^verbatim>\<open>None\<close> at its early \<^verbatim>\<open>return\<close> and \<^verbatim>\<open>'ok'\<close> at the end. The
  part after the early return is \<open>preflight_checks\<close>, which is given the requested
  method.
\<close>

definition preflight_checks :: "service \<Rightarrow> string \<Rightarrow> request \<Rightarrow> string option \<times> request" where
  "preflight_checks svc requested_method req =
     (let supported_headers = cors_supported_headers svc;
          requested_headers =
            (case request.headers req ''Access-Control-Request-Headers'' of
               None \<Rightarrow> []
             | Some v \<Rightarrow> if v \<noteq> [] then split v else []);
          req = (if requested_method \<notin> set (cors_supported_methods svc)
                 then errors_add req ''header'' ''Access-Control-Request-Method''
                        ''Method not allowed''
                 else req);
          req = check_headers supported_headers requested_headers req;
          req = set_response_header req ''Access-Control-Allow-Headers''
                  (join '', '' supported_headers);
          req = set_response_header req ''Access-Control-Allow-Methods''
                  (join '','' (cors_supported_methods svc));
          req = (case cors_max_age_for svc requested_method of
                   None \<Rightarrow> req
                 | Some max_age \<Rightarrow>
                     set_response_header req ''Access-Control-Max-Age'' (str max_age))
      in (Some ''ok'', req))"

definition preflight_view :: "service \<Rightarrow> request \<Rightarrow> string option \<times> request" where
  "preflight_view svc req =
     (let origin = request.headers req ''Origin'';
          req = (if \<not> truthy origin
                 then errors_add req ''header'' ''Origin'' ''this header is mandatory''
                 else req);
          requested_method = request.headers req ''Access-Control-Request-Method'';
          req = (if \<not> truthy requested_method
                 then errors_add req ''header'' ''Access-Control-Request-Method''
                        ''this header is mandatory''
                 else req)
      in (case requested_method of
            None \<Rightarrow> (None, req)
          | Some m \<Rightarrow>
              if \<not> (m \<noteq> [] \<and> truthy origin) then (None, req)
              else preflight_checks svc m req))"

subsection \<open>The effective method, the validator and the filter\<close>

definition get_method :: "request \<Rightarrow> string" where
  "get_method req =
     (if chars (request_method req) = ''OPTIONS''
      then (case request.headers req ''Access-Control-Request-Method'' of
              None \<Rightarrow> chars (request_method req)
            | Some m \<Rightarrow> m)
      else chars (request_method req))"

definition cors_validator :: "service \<Rightarrow> request \<Rightarrow> request" where
  "cors_validator svc req =
     (let meth = get_method req in
      case request.headers req ''Origin'' of
        None \<Rightarrow> req
      | Some origin \<Rightarrow>
          if origin \<noteq> [] then
            (if \<not> py_any (map (\<lambda>pat. fnmatchcase origin pat) (cors_origins_for svc meth))
             then errors_add req ''header'' ''Origin'' (origin @ '' not allowed'')
             else set_response_header req ''Access-Control-Allow-Origin'' origin)
          else req)"

definition cors_filter :: "service \<Rightarrow> response \<Rightarrow> request \<Rightarrow> response" where
  "cors_filter svc resp req =
     (let meth = get_method req;
          resp = (if cors_support_credentials svc meth \<and>
                     \<not> ''Access-Control-Allow-Credentials'' \<in> dom (response.headers resp)
                  then set_header resp ''Access-Control-Allow-Credentials'' ''true''
                  else resp)
      in if is_not (request_method req) OPTIONS
         then (let supported_headers = cors_supported_headers svc
               in if supported_headers \<noteq> []
                  then set_header resp ''Access-Control-Expose-Headers''
                         (join '', '' supported_headers)
                  else resp)
         else resp)"


section \<open>pyramidhook.py: the options view\<close>

text \<open>
  \<^verbatim>\<open>_options_view\<close> is an older view for the same request. It differs from
  \<^verbatim>\<open>_preflight_view\<close>: the location of its errors is \<^verbatim>\<open>'headers'\<close>, it checks the origin
  itself, against \<^verbatim>\<open>cors_supported_origins\<close>, it joins the supported headers with a comma and
  no space, and it sets no Access-Control-Max-Age. It calls \<^verbatim>\<open>fnmatch.fnmatch\<close>, which
  normalises the case of both arguments as the operating system does for file names and
  then calls \<^verbatim>\<open>fnmatchcase\<close>; on a POSIX system that normalisation changes nothing.
\<close>

definition fnmatch :: "string \<Rightarrow> string \<Rightarrow> bool" where
  "fnmatch s pat = fnmatchcase s pat"

fun options_check_headers :: "string list \<Rightarrow> string list \<Rightarrow> request \<Rightarrow> request" where
  "options_check_headers supported_headers [] req = req"
| "options_check_headers supported_headers (h # hs) req =
     options_check_headers supported_headers hs
       (if \<not> h \<in> set supported_headers
        then errors_add req ''headers'' ''Access-Control-Request-Headers''
               (''Header '' @ [CHR 0x22] @ h @ [CHR 0x22] @ '' not allowed'')
        else req)"

definition options_checks ::
    "service \<Rightarrow> string \<Rightarrow> string \<Rightarrow> request \<Rightarrow> string option \<times> request" where
  "options_checks svc origin requested_method req =
     (let requested_headers =
            (case request.headers req ''Access-Control-Request-Headers'' of
               None \<Rightarrow> []
             | Some v \<Rightarrow> if v \<noteq> [] then split v else []);
          req = (if \<not> py_any (map (\<lambda>pat. fnmatch origin pat) (cors_supported_origins svc))
                 then errors_add req ''headers'' ''Origin'' (origin @ '' not allowed'')
                 else set_response_header req ''Access-Control-Allow-Origin'' origin);
          req = (if requested_method \<notin> set (cors_supported_methods svc)
                 then errors_add req ''headers'' ''Access-Control-Request-Method''
                        ''Method not allowed''
                 else req);
          supported_headers = cors_supported_headers svc;
          req = options_check_headers supported_headers requested_headers req;
          req = set_response_header req ''Access-Control-Allow-Methods''
                  (join '','' (cors_supported_methods svc));
          req = set_response_header req ''Access-Control-Allow-Headers''
                  (join '','' (cors_supported_headers svc))
      in (Some ''ok'', req))"

definition options_view :: "service \<Rightarrow> request \<Rightarrow> string option \<times> request" where
  "options_view svc req =
     (let origin = request.headers req ''Origin'';
          req = (if \<not> truthy origin
                 then errors_add req ''headers'' ''Origin'' ''this header is mandatory''
                 else req);
          requested_method = request.headers req ''Access-Control-Request-Method'';
          req = (if \<not> truthy requested_method
                 then errors_add req ''headers'' ''Access-Control-Request-Method''
                        ''this header is mandatory''
                 else req)
      in (case (requested_method, origin) of
            (Some m, Some orig) \<Rightarrow>
              if \<not> (m \<noteq> [] \<and> orig \<noteq> []) then (None, req)
              else options_checks svc orig m req
          | _ \<Rightarrow> (None, req)))"

section \<open>The error entries and some concrete inputs\<close>

text \<open>
  The four kinds of entry that cors.py adds to \<^verbatim>\<open>request.errors\<close>, each written as its
  \<^verbatim>\<open>add\<close> call builds it.
\<close>

definition MissingHeader :: "string \<Rightarrow> error" where
  "MissingHeader n =
     \<lparr>location = ''header'', name = n, description = ''this header is mandatory''\<rparr>"

definition MethodNotAllowed :: error where
  "MethodNotAllowed =
     \<lparr>location = ''header'', name = ''Access-Control-Request-Method'',
      description = ''Method not allowed''\<rparr>"

definition HeaderNotAllowed :: "string \<Rightarrow> error" where
  "HeaderNotAllowed h =
     \<lparr>location = ''header'', name = ''Access-Control-Request-Headers'',
      description = ''Header '' @ [CHR 0x22] @ h @ [CHR 0x22] @ '' not allowed''\<rparr>"

definition OriginNotAllowed :: "string \<Rightarrow> error" where
  "OriginNotAllowed origin =
     \<lparr>location = ''header'', name = ''Origin'', description = origin @ '' not allowed''\<rparr>"

text \<open>
  A service in the manner of the one in test_cors.py, and requests built from a method
  object and a list of headers, with no error recorded and an empty response. The
  method objects \<open>verb v\<close> are not the constant \<^verbatim>\<open>'OPTIONS'\<close> of cors.py: they stand for the
  strings a server makes when it reads the request line.
\<close>

definition example_service :: service where
  "example_service =
     \<lparr>cors_supported_headers = [''X-My-Header'', ''X-Other''],
      cors_supported_methods = [''GET'', ''HEAD'', ''PUT''],
      cors_origins_for = (\<lambda>m. if m = ''GET'' then [''notmyidea.org'', ''*.example.com'']
                                else [''*'']),
      cors_support_credentials = (\<lambda>m. m = ''GET''),
      cors_max_age_for = (\<lambda>m. if m = ''GET'' then Some 3600 else None),
      cors_supported_origins = [''notmyidea.org'']\<rparr>"

definition empty_response :: response where
  "empty_response = \<lparr>response.headers = Map.empty\<rparr>"

definition verb :: "string \<Rightarrow> str_object" where
  "verb v = \<lparr>address = 1, chars = v\<rparr>"

definition make_request :: "str_object \<Rightarrow> (string \<times> string) list \<Rightarrow> request" where
  "make_request m hs =
     \<lparr>request_method = m, headers = map_of hs, errors = [], response = empty_response\<rparr>"

section \<open>Properties of the library functions\<close>

lemma py_any_map: "py_any (map P xs) = (\<exists>x\<in>set xs. P x)"
  by (induction xs) auto

lemma split_Nil: "split [] = []"
  by (simp add: split_def)

lemma split_from_words:
  assumes "\<forall>c\<in>set w. \<not> isspace c"
  shows "\<forall>v\<in>set (split_from w s). v \<noteq> [] \<and> (\<forall>c\<in>set v. \<not> isspace c)"
  using assms
proof (induction s arbitrary: w)
  case Nil
  then show ?case by simp
next
  case (Cons c s)
  have a: "\<forall>v\<in>set (split_from [] s). v \<noteq> [] \<and> (\<forall>c\<in>set v. \<not> isspace c)"
    using Cons.IH [of "[]"] by simp
  have b: "\<forall>v\<in>set (split_from (w @ [c]) s). v \<noteq> [] \<and> (\<forall>c\<in>set v. \<not> isspace c)"
    if "\<not> isspace c"
    using Cons.IH [of "w @ [c]"] Cons.prems that by simp
  show ?case
    using a b Cons.prems by auto
qed

lemma split_words: "v \<in> set (split s) \<Longrightarrow> v \<noteq> [] \<and> (\<forall>c\<in>set v. \<not> isspace c)"
  using split_from_words [of "[]" s] by (simp add: split_def)

lemma join_Cons: "join sep (x # xs) = x @ concat (map (\<lambda>y. sep @ y) xs)"
  by (induction sep xs arbitrary: x rule: join.induct) simp_all

lemma str_3600: "str 3600 = ''3600''"
  by code_simp

text \<open>
  A literal pattern matches itself only, so the comparison is exact and sensitive to
  case. A \<^verbatim>\<open>*\<close> followed by a literal pattern matches the strings that end with it.
\<close>

lemma translate_literal: "literal pat \<Longrightarrow> translate pat = map Lit pat"
  by (induction pat) (auto simp: literal_def)

lemma match_Lit: "match (map Lit pat) s = (s = pat)"
proof (induction pat arbitrary: s)
  case Nil
  then show ?case by simp
next
  case (Cons p ps)
  then show ?case by (cases s) auto
qed

lemma fnmatchcase_literal: "literal pat \<Longrightarrow> fnmatchcase s pat = (s = pat)"
  by (simp add: fnmatchcase_def translate_literal match_Lit)

lemma match_Star_Lit: "match (Star # map Lit suf) s = (\<exists>pre. s = pre @ suf)"
proof (induction s)
  case Nil
  then show ?case by (auto simp: match_Lit)
next
  case (Cons c cs)
  have "(\<exists>pre. c # cs = pre @ suf) = (c # cs = suf \<or> (\<exists>pre. cs = pre @ suf))"
    by (auto simp: Cons_eq_append_conv)
  with Cons show ?case by (auto simp: match_Lit)
qed

lemma fnmatchcase_star_literal:
  "literal suf \<Longrightarrow> fnmatchcase s (CHR ''*'' # suf) = (\<exists>pre. s = pre @ suf)"
  by (simp add: fnmatchcase_def translate_literal match_Star_Lit)

lemma fnmatchcase_example: "fnmatchcase ''a.example.com'' ''*.example.com''"
  by code_simp

lemma fnmatchcase_example_not: "\<not> fnmatchcase ''example.com'' ''*.example.com''"
  by code_simp

lemma fnmatchcase_empty_star: "fnmatchcase [] ''*''"
  by code_simp

section \<open>The error entries\<close>

lemma errors_add_eq:
  "errors_add req loc n d =
     req\<lparr>errors := errors req @ [\<lparr>location = loc, name = n, description = d\<rparr>]\<rparr>"
  by (simp add: errors_add_def add_def)

lemma HeaderNotAllowed_inj: "(HeaderNotAllowed h = HeaderNotAllowed h') = (h = h')"
  by (simp add: HeaderNotAllowed_def)

lemma Method_neq_Header: "MethodNotAllowed \<noteq> HeaderNotAllowed h"
  by (simp add: HeaderNotAllowed_def MethodNotAllowed_def)

lemma Origin_neq_Method: "OriginNotAllowed origin \<noteq> MethodNotAllowed"
  by (simp add: OriginNotAllowed_def MethodNotAllowed_def)

lemma Origin_neq_Header: "OriginNotAllowed origin \<noteq> HeaderNotAllowed h"
  by (simp add: OriginNotAllowed_def HeaderNotAllowed_def)

lemma count_list_map_inj:
  "(\<And>x y. (f x = f y) = (x = y)) \<Longrightarrow> count_list (map f xs) (f x) = count_list xs x"
  by (induction xs) auto

lemma count_list_filter: "count_list (filter P xs) x = (if P x then count_list xs x else 0)"
  by (induction xs) auto

lemma count_list_0: "x \<notin> set xs \<Longrightarrow> count_list xs x = 0"
  by (induction xs) auto

section \<open>The request validator\<close>

text \<open>
  C8. When the request has no Origin header, the validator returns the request as it was:
  no error is recorded and the response, with its headers, is unchanged.
\<close>

theorem validator_without_origin:
  assumes "request.headers req ''Origin'' = None"
  shows "cors_validator svc req = req"
  using assms by (simp add: cors_validator_def)

theorem validator_without_origin_witness:
  "request.headers (make_request (verb ''GET'') [(''Accept'', ''text/html'')]) ''Origin'' = None
   \<and> cors_validator example_service (make_request (verb ''GET'') [(''Accept'', ''text/html'')])
       = make_request (verb ''GET'') [(''Accept'', ''text/html'')]"
proof -
  have h: "request.headers (make_request (verb ''GET'') [(''Accept'', ''text/html'')]) ''Origin''
           = None"
    by (simp add: make_request_def)
  show ?thesis
    using h validator_without_origin [OF h, of example_service] by simp
qed

text \<open>
  C1, for an Origin header whose value is not empty. The validator tests the value with
  \<^verbatim>\<open>if origin\<close>, so an empty value is treated as no header at all. For a value that is not
  empty: when it matches one of the patterns that \<^verbatim>\<open>cors_origins_for\<close> gives for the
  effective method, the only change is that Access-Control-Allow-Origin of the response is
  that value; when it matches none, the only change is one more error, the one for this
  origin. The pattern \<^verbatim>\<open>*.example.com\<close> matches \<^verbatim>\<open>a.example.com\<close> and not \<^verbatim>\<open>example.com\<close>.
\<close>

theorem validator_with_origin:
  assumes "request.headers req ''Origin'' = Some origin" and "origin \<noteq> []"
  shows "cors_validator svc req =
     (if \<exists>pat\<in>set (cors_origins_for svc (get_method req)). fnmatchcase origin pat
      then req\<lparr>response := (response req)\<lparr>response.headers :=
             (response.headers (response req))(''Access-Control-Allow-Origin'' \<mapsto> origin)\<rparr>\<rparr>
      else req\<lparr>errors := errors req @ [OriginNotAllowed origin]\<rparr>)
   \<and> fnmatchcase ''a.example.com'' ''*.example.com''
   \<and> \<not> fnmatchcase ''example.com'' ''*.example.com''"
proof -
  have "cors_validator svc req =
     (if \<exists>pat\<in>set (cors_origins_for svc (get_method req)). fnmatchcase origin pat
      then req\<lparr>response := (response req)\<lparr>response.headers :=
             (response.headers (response req))(''Access-Control-Allow-Origin'' \<mapsto> origin)\<rparr>\<rparr>
      else req\<lparr>errors := errors req @ [OriginNotAllowed origin]\<rparr>)"
    using assms
    by (simp add: cors_validator_def py_any_map errors_add_eq OriginNotAllowed_def
        set_response_header_def set_header_def)
  then show ?thesis
    using fnmatchcase_example fnmatchcase_example_not by blast
qed

theorem validator_with_origin_witness:
  "request.headers (make_request (verb ''GET'') [(''Origin'', ''a.example.com'')]) ''Origin''
     = Some ''a.example.com''
   \<and> ''a.example.com'' \<noteq> []
   \<and> response.headers (response (cors_validator example_service
        (make_request (verb ''GET'') [(''Origin'', ''a.example.com'')])))
        ''Access-Control-Allow-Origin'' = Some ''a.example.com''
   \<and> errors (cors_validator example_service
        (make_request (verb ''GET'') [(''Origin'', ''a.example.com'')])) = []"
proof -
  have g: "get_method (make_request (verb ''GET'') hs) = ''GET''" for hs
    by (simp add: get_method_def make_request_def verb_def)
  have m: "\<exists>pat\<in>set (cors_origins_for example_service ''GET''). fnmatchcase ''a.example.com'' pat"
    using fnmatchcase_example by (simp add: example_service_def)
  have h: "request.headers (make_request (verb ''GET'') [(''Origin'', ''a.example.com'')])
             ''Origin'' = Some ''a.example.com''"
    by (simp add: make_request_def)
  have "cors_validator example_service
          (make_request (verb ''GET'') [(''Origin'', ''a.example.com'')]) =
        (make_request (verb ''GET'') [(''Origin'', ''a.example.com'')])
          \<lparr>response := (response (make_request (verb ''GET'') [(''Origin'', ''a.example.com'')]))
             \<lparr>response.headers :=
                (response.headers
                   (response (make_request (verb ''GET'') [(''Origin'', ''a.example.com'')])))
                (''Access-Control-Allow-Origin'' \<mapsto> ''a.example.com'')\<rparr>\<rparr>"
    using validator_with_origin [OF h, of example_service] m by (simp add: g)
  then show ?thesis
    using h by (simp add: make_request_def)
qed

text \<open>
  Without the condition on the value the statement fails. A request whose Origin header
  is empty carries the header, and the empty value matches the pattern \<^verbatim>\<open>*\<close> configured for
  the method; the validator sets no Access-Control-Allow-Origin.
\<close>

theorem validator_empty_origin_counterexample:
  "request.headers (make_request (verb ''PUT'') [(''Origin'', [])]) ''Origin'' = Some []
   \<and> ''*'' \<in> set (cors_origins_for example_service
        (get_method (make_request (verb ''PUT'') [(''Origin'', [])])))
   \<and> fnmatchcase [] ''*''
   \<and> response.headers (response (cors_validator example_service
        (make_request (verb ''PUT'') [(''Origin'', [])])))
        ''Access-Control-Allow-Origin'' = None"
  using fnmatchcase_empty_star
  by (simp add: make_request_def cors_validator_def get_method_def verb_def
      example_service_def empty_response_def)

section \<open>The options view of pyramidhook.py\<close>

text \<open>
  The older view agrees with \<^verbatim>\<open>_preflight_view\<close> on the early return and on the method and
  header checks, apart from the location \<^verbatim>\<open>'headers'\<close> of its errors. It differs after
  them: it checks the origin against \<^verbatim>\<open>cors_supported_origins\<close>, joins the supported headers
  with a comma alone, and never sets Access-Control-Max-Age.
\<close>

lemma options_check_headers_eq:
  "options_check_headers sh hs req =
     req\<lparr>errors := errors req @
       map (\<lambda>h. (HeaderNotAllowed h)\<lparr>location := ''headers''\<rparr>)
         (filter (\<lambda>h. h \<notin> set sh) hs)\<rparr>"
  by (induction hs arbitrary: req) (auto simp: errors_add_eq HeaderNotAllowed_def)

lemma options_view_missing:
  assumes "\<not> truthy (request.headers req ''Origin'') \<or>
           \<not> truthy (request.headers req ''Access-Control-Request-Method'')"
  shows "options_view svc req =
     (None,
      req\<lparr>errors := errors req @
        (if truthy (request.headers req ''Origin'') then []
         else [(MissingHeader ''Origin'')\<lparr>location := ''headers''\<rparr>]) @
        (if truthy (request.headers req ''Access-Control-Request-Method'') then []
         else [(MissingHeader ''Access-Control-Request-Method'')\<lparr>location := ''headers''\<rparr>])\<rparr>)"
  using assms
  by (auto simp: options_view_def errors_add_eq MissingHeader_def Let_def
      split: option.splits)

lemma options_view_present:
  assumes "request.headers req ''Origin'' = Some origin" and "origin \<noteq> []"
    and "request.headers req ''Access-Control-Request-Method'' = Some m" and "m \<noteq> []"
  shows "options_view svc req =
     (Some ''ok'',
      req\<lparr>errors := errors req @
            (if \<exists>pat\<in>set (cors_supported_origins svc). fnmatchcase origin pat then []
             else [(OriginNotAllowed origin)\<lparr>location := ''headers''\<rparr>]) @
            (if m \<in> set (cors_supported_methods svc) then []
             else [MethodNotAllowed\<lparr>location := ''headers''\<rparr>]) @
            map (\<lambda>h. (HeaderNotAllowed h)\<lparr>location := ''headers''\<rparr>)
              (filter (\<lambda>h. h \<notin> set (cors_supported_headers svc))
                 (case request.headers req ''Access-Control-Request-Headers'' of
                    None \<Rightarrow> [] | Some v \<Rightarrow> split v)),
          response := (response req)\<lparr>response.headers :=
            (let h = (if \<exists>pat\<in>set (cors_supported_origins svc). fnmatchcase origin pat
                      then (response.headers (response req))
                             (''Access-Control-Allow-Origin'' \<mapsto> origin)
                      else response.headers (response req))
             in h(''Access-Control-Allow-Methods'' \<mapsto> join '','' (cors_supported_methods svc),
                  ''Access-Control-Allow-Headers'' \<mapsto>
                    join '','' (cors_supported_headers svc)))\<rparr>\<rparr>)"
  using assms
  by (auto simp: options_view_def options_checks_def options_check_headers_eq fnmatch_def
      py_any_map errors_add_eq OriginNotAllowed_def MethodNotAllowed_def
      set_response_header_def set_header_def split_Nil Let_def split: option.splits)

section \<open>The preflight view\<close>

lemma check_headers_eq:
  "check_headers sh hs req =
     req\<lparr>errors := errors req @ map HeaderNotAllowed (filter (\<lambda>h. h \<notin> set sh) hs)\<rparr>"
  by (induction hs arbitrary: req) (auto simp: errors_add_eq HeaderNotAllowed_def)

text \<open>
  What the part after the early return does to the request: the loop over the requested
  headers is a filter, and an empty Access-Control-Request-Headers gives no name, split
  or not.
\<close>

lemma preflight_checks_eq:
  "preflight_checks svc m req =
     (Some ''ok'',
      req\<lparr>errors := errors req @
            (if m \<in> set (cors_supported_methods svc) then [] else [MethodNotAllowed]) @
            map HeaderNotAllowed
              (filter (\<lambda>h. h \<notin> set (cors_supported_headers svc))
                 (case request.headers req ''Access-Control-Request-Headers'' of
                    None \<Rightarrow> [] | Some v \<Rightarrow> split v)),
          response := (response req)\<lparr>response.headers :=
            (let h = (response.headers (response req))
                       (''Access-Control-Allow-Headers'' \<mapsto>
                          join '', '' (cors_supported_headers svc),
                        ''Access-Control-Allow-Methods'' \<mapsto>
                          join '','' (cors_supported_methods svc))
             in case cors_max_age_for svc m of
                  None \<Rightarrow> h
                | Some max_age \<Rightarrow> h(''Access-Control-Max-Age'' \<mapsto> str max_age))\<rparr>\<rparr>)"
  by (auto simp: preflight_checks_def check_headers_eq
        errors_add_eq MethodNotAllowed_def set_response_header_def set_header_def split_Nil
        Let_def split: option.splits)

lemma preflight_view_present:
  assumes "request.headers req ''Origin'' = Some origin" and "origin \<noteq> []"
    and "request.headers req ''Access-Control-Request-Method'' = Some m" and "m \<noteq> []"
  shows "preflight_view svc req = preflight_checks svc m req"
  using assms by (simp add: preflight_view_def)

text \<open>
  C2, with a header counted as missing when it is absent or empty. The view tests both
  values with \<^verbatim>\<open>not\<close>, which is true of \<^verbatim>\<open>None\<close> and of the empty string. When the Origin
  header or the Access-Control-Request-Method header is missing in that sense, the view
  records one error for each header that is missing, Origin first, changes nothing else
  (the response keeps its headers) and returns at once, with \<^verbatim>\<open>None\<close>.
\<close>

theorem preflight_missing_headers:
  assumes "\<not> truthy (request.headers req ''Origin'') \<or>
           \<not> truthy (request.headers req ''Access-Control-Request-Method'')"
  shows "preflight_view svc req =
     (None,
      req\<lparr>errors := errors req @
        (if truthy (request.headers req ''Origin'') then [] else [MissingHeader ''Origin'']) @
        (if truthy (request.headers req ''Access-Control-Request-Method'') then []
         else [MissingHeader ''Access-Control-Request-Method''])\<rparr>)"
  using assms
  by (auto simp: preflight_view_def errors_add_eq MissingHeader_def Let_def
      split: option.splits)

theorem preflight_missing_headers_witness:
  "request.headers (make_request (verb ''OPTIONS'') []) ''Origin'' = None
   \<and> request.headers (make_request (verb ''OPTIONS'') []) ''Access-Control-Request-Method''
       = None
   \<and> preflight_view example_service (make_request (verb ''OPTIONS'') []) =
      (None, (make_request (verb ''OPTIONS'') [])
         \<lparr>errors := [MissingHeader ''Origin'', MissingHeader ''Access-Control-Request-Method'']\<rparr>)"
proof -
  have h: "\<not> truthy (request.headers (make_request (verb ''OPTIONS'') []) ''Origin'') \<or>
    \<not> truthy (request.headers (make_request (verb ''OPTIONS'') [])
         ''Access-Control-Request-Method'')"
    by (simp add: make_request_def)
  show ?thesis
    using preflight_missing_headers [OF h, of example_service]
    by (simp add: make_request_def)
qed

text \<open>
  With absent read as having no entry at all, the count fails: here the Origin header
  alone is absent, the other header is there with an empty value, and the view records
  two errors.
\<close>

theorem preflight_empty_method_counterexample:
  "request.headers (make_request (verb ''OPTIONS'') [(''Access-Control-Request-Method'', [])])
     ''Origin'' = None
   \<and> request.headers (make_request (verb ''OPTIONS'') [(''Access-Control-Request-Method'', [])])
     ''Access-Control-Request-Method'' = Some []
   \<and> errors (snd (preflight_view example_service
        (make_request (verb ''OPTIONS'') [(''Access-Control-Request-Method'', [])]))) =
      [MissingHeader ''Origin'', MissingHeader ''Access-Control-Request-Method'']"
  by (simp add: make_request_def preflight_view_def errors_add_eq MissingHeader_def)

text \<open>
  C3, for an Origin and an Access-Control-Request-Method that are not empty. The errors
  the view records are: one for the method when it is not among the supported methods,
  then one for each requested header name that is not among the supported headers, in the
  order of the request and as many times as the name is requested. The names are those of
  the Access-Control-Request-Headers value split at whitespace, and they are compared
  exactly. So the method error is recorded once or not at all, and a header name that is
  not supported has as many errors as it has occurrences.
\<close>

theorem preflight_method_and_header_errors:
  assumes "request.headers req ''Origin'' = Some origin" and "origin \<noteq> []"
    and "request.headers req ''Access-Control-Request-Method'' = Some m" and "m \<noteq> []"
  shows "let requested = (case request.headers req ''Access-Control-Request-Headers'' of
                            None \<Rightarrow> [] | Some v \<Rightarrow> split v);
             recorded = drop (length (errors req)) (errors (snd (preflight_view svc req)))
         in errors (snd (preflight_view svc req)) = errors req @ recorded
          \<and> recorded =
              (if m \<in> set (cors_supported_methods svc) then [] else [MethodNotAllowed]) @
              map HeaderNotAllowed
                (filter (\<lambda>h. h \<notin> set (cors_supported_headers svc)) requested)
          \<and> count_list recorded MethodNotAllowed =
              (if m \<in> set (cors_supported_methods svc) then 0 else 1)
          \<and> (\<forall>h. count_list recorded (HeaderNotAllowed h) =
              (if h \<in> set (cors_supported_headers svc) then 0 else count_list requested h))"
proof -
  let ?requested = "case request.headers req ''Access-Control-Request-Headers'' of
                      None \<Rightarrow> [] | Some v \<Rightarrow> split v"
  let ?recorded = "drop (length (errors req)) (errors (snd (preflight_view svc req)))"
  let ?ms = "if m \<in> set (cors_supported_methods svc) then [] else [MethodNotAllowed]"
  let ?hs = "map HeaderNotAllowed
               (filter (\<lambda>h. h \<notin> set (cors_supported_headers svc)) ?requested)"
  have all: "errors (snd (preflight_view svc req)) = errors req @ ?ms @ ?hs"
    using assms by (simp add: preflight_view_present preflight_checks_eq)
  then have rec: "?recorded = ?ms @ ?hs"
    by simp
  have "MethodNotAllowed \<notin> set ?hs"
    using Method_neq_Header by auto
  then have "count_list ?hs MethodNotAllowed = 0"
    by (rule count_list_0)
  then have m: "count_list ?recorded MethodNotAllowed =
      (if m \<in> set (cors_supported_methods svc) then 0 else 1)"
    unfolding rec by simp
  have "count_list ?hs (HeaderNotAllowed h) =
      (if h \<in> set (cors_supported_headers svc) then 0 else count_list ?requested h)" for h
    by (simp add: count_list_map_inj HeaderNotAllowed_inj count_list_filter)
  then have h: "count_list ?recorded (HeaderNotAllowed h) =
      (if h \<in> set (cors_supported_headers svc) then 0 else count_list ?requested h)" for h
    unfolding rec using Method_neq_Header [of h] by auto
  have e: "errors (snd (preflight_view svc req)) = errors req @ ?recorded"
    using all by simp
  show ?thesis
    unfolding Let_def using e rec m h by blast
qed

theorem preflight_method_and_header_errors_witness:
  "request.headers (make_request (verb ''OPTIONS'')
      [(''Origin'', ''notmyidea.org''), (''Access-Control-Request-Method'', ''DELETE''),
       (''Access-Control-Request-Headers'', ''X-My-Header X-Bad  x-my-header X-Bad'')])
     ''Origin'' = Some ''notmyidea.org''
   \<and> ''notmyidea.org'' \<noteq> []
   \<and> request.headers (make_request (verb ''OPTIONS'')
      [(''Origin'', ''notmyidea.org''), (''Access-Control-Request-Method'', ''DELETE''),
       (''Access-Control-Request-Headers'', ''X-My-Header X-Bad  x-my-header X-Bad'')])
     ''Access-Control-Request-Method'' = Some ''DELETE''
   \<and> ''DELETE'' \<noteq> []
   \<and> errors (snd (preflight_view example_service (make_request (verb ''OPTIONS'')
      [(''Origin'', ''notmyidea.org''), (''Access-Control-Request-Method'', ''DELETE''),
       (''Access-Control-Request-Headers'', ''X-My-Header X-Bad  x-my-header X-Bad'')]))) =
      [MethodNotAllowed, HeaderNotAllowed ''X-Bad'', HeaderNotAllowed ''x-my-header'',
       HeaderNotAllowed ''X-Bad'']"
proof -
  let ?r = "make_request (verb ''OPTIONS'')
      [(''Origin'', ''notmyidea.org''), (''Access-Control-Request-Method'', ''DELETE''),
       (''Access-Control-Request-Headers'', ''X-My-Header X-Bad  x-my-header X-Bad'')]"
  have h1: "request.headers ?r ''Origin'' = Some ''notmyidea.org''"
    and h2: "request.headers ?r ''Access-Control-Request-Method'' = Some ''DELETE''"
    and h3: "request.headers ?r ''Access-Control-Request-Headers'' =
               Some ''X-My-Header X-Bad  x-my-header X-Bad''"
    and e: "errors ?r = []"
    by (simp_all add: make_request_def)
  have sp: "split ''X-My-Header X-Bad  x-my-header X-Bad'' =
              [''X-My-Header'', ''X-Bad'', ''x-my-header'', ''X-Bad'']"
    by code_simp
  have "errors (snd (preflight_view example_service ?r)) =
      [MethodNotAllowed, HeaderNotAllowed ''X-Bad'', HeaderNotAllowed ''x-my-header'',
       HeaderNotAllowed ''X-Bad'']"
    using preflight_method_and_header_errors [OF h1 _ h2, of example_service]
    by (simp add: Let_def h3 e sp example_service_def)
  then show ?thesis
    using h1 h2 by simp
qed

text \<open>
  When the Origin header is there but empty, the view returns before it looks at the
  method: the method of this request is not supported, and no error says so.
\<close>

theorem preflight_method_error_counterexample:
  "request.headers (make_request (verb ''OPTIONS'')
      [(''Origin'', []), (''Access-Control-Request-Method'', ''DELETE'')]) ''Origin'' = Some []
   \<and> request.headers (make_request (verb ''OPTIONS'')
      [(''Origin'', []), (''Access-Control-Request-Method'', ''DELETE'')])
      ''Access-Control-Request-Method'' = Some ''DELETE''
   \<and> ''DELETE'' \<notin> set (cors_supported_methods example_service)
   \<and> MethodNotAllowed \<notin> set (errors (snd (preflight_view example_service
        (make_request (verb ''OPTIONS'')
          [(''Origin'', []), (''Access-Control-Request-Method'', ''DELETE'')]))))"
  by (simp add: make_request_def preflight_view_def errors_add_eq MethodNotAllowed_def
      example_service_def)

text \<open>
  C4, for an Origin and an Access-Control-Request-Method that are not empty, and for the
  view of cors.py. Whatever errors were recorded, the headers of the response after
  \<^verbatim>\<open>_preflight_view\<close> are those before it with Access-Control-Allow-Headers set to the
  supported headers joined with a comma and a space, Access-Control-Allow-Methods set to
  the supported methods joined with a comma, and Access-Control-Max-Age set to the decimal
  form of \<^verbatim>\<open>cors_max_age_for\<close> of the requested method when that is not \<^verbatim>\<open>None\<close>, and left as
  it was when it is. The older \<^verbatim>\<open>_options_view\<close> of pyramidhook.py sets
  Access-Control-Allow-Methods in the same way, but it joins the supported headers with a
  comma alone and it leaves Access-Control-Max-Age as it was, whatever the max age of the
  method.
\<close>

theorem preflight_response_headers:
  assumes "request.headers req ''Origin'' = Some origin" and "origin \<noteq> []"
    and "request.headers req ''Access-Control-Request-Method'' = Some m" and "m \<noteq> []"
  shows "response.headers (response (snd (preflight_view svc req))) =
     (let h = (response.headers (response req))
                (''Access-Control-Allow-Headers'' \<mapsto> join '', '' (cors_supported_headers svc),
                 ''Access-Control-Allow-Methods'' \<mapsto> join '','' (cors_supported_methods svc))
      in case cors_max_age_for svc m of
           None \<Rightarrow> h
         | Some max_age \<Rightarrow> h(''Access-Control-Max-Age'' \<mapsto> str max_age))
   \<and> response.headers (response (snd (options_view svc req))) =
     (let h = (if \<exists>pat\<in>set (cors_supported_origins svc). fnmatchcase origin pat
               then (response.headers (response req))
                      (''Access-Control-Allow-Origin'' \<mapsto> origin)
               else response.headers (response req))
      in h(''Access-Control-Allow-Methods'' \<mapsto> join '','' (cors_supported_methods svc),
           ''Access-Control-Allow-Headers'' \<mapsto> join '','' (cors_supported_headers svc)))
   \<and> response.headers (response (snd (options_view svc req))) ''Access-Control-Max-Age'' =
       response.headers (response req) ''Access-Control-Max-Age''"
proof -
  have p: "response.headers (response (snd (preflight_view svc req))) =
     (let h = (response.headers (response req))
                (''Access-Control-Allow-Headers'' \<mapsto> join '', '' (cors_supported_headers svc),
                 ''Access-Control-Allow-Methods'' \<mapsto> join '','' (cors_supported_methods svc))
      in case cors_max_age_for svc m of
           None \<Rightarrow> h
         | Some max_age \<Rightarrow> h(''Access-Control-Max-Age'' \<mapsto> str max_age))"
    using assms by (simp add: preflight_view_present preflight_checks_eq)
  have o: "response.headers (response (snd (options_view svc req))) =
     (let h = (if \<exists>pat\<in>set (cors_supported_origins svc). fnmatchcase origin pat
               then (response.headers (response req))
                      (''Access-Control-Allow-Origin'' \<mapsto> origin)
               else response.headers (response req))
      in h(''Access-Control-Allow-Methods'' \<mapsto> join '','' (cors_supported_methods svc),
           ''Access-Control-Allow-Headers'' \<mapsto> join '','' (cors_supported_headers svc)))"
    unfolding options_view_present [OF assms] by simp
  have "response.headers (response (snd (options_view svc req))) ''Access-Control-Max-Age'' =
       response.headers (response req) ''Access-Control-Max-Age''"
    unfolding o by (simp add: Let_def)
  with p o show ?thesis
    by blast
qed

theorem preflight_response_headers_witness:
  "request.headers (make_request (verb ''OPTIONS'')
      [(''Origin'', ''notmyidea.org''), (''Access-Control-Request-Method'', ''GET'')])
     ''Origin'' = Some ''notmyidea.org''
   \<and> ''notmyidea.org'' \<noteq> []
   \<and> request.headers (make_request (verb ''OPTIONS'')
      [(''Origin'', ''notmyidea.org''), (''Access-Control-Request-Method'', ''GET'')])
     ''Access-Control-Request-Method'' = Some ''GET''
   \<and> ''GET'' \<noteq> []
   \<and> response.headers (response (snd (preflight_view example_service
        (make_request (verb ''OPTIONS'')
          [(''Origin'', ''notmyidea.org''), (''Access-Control-Request-Method'', ''GET'')])))) =
      [''Access-Control-Allow-Headers'' \<mapsto> ''X-My-Header, X-Other'',
       ''Access-Control-Allow-Methods'' \<mapsto> ''GET,HEAD,PUT'',
       ''Access-Control-Max-Age'' \<mapsto> ''3600'']
   \<and> response.headers (response (snd (options_view example_service
        (make_request (verb ''OPTIONS'')
          [(''Origin'', ''notmyidea.org''), (''Access-Control-Request-Method'', ''GET'')])))) =
      [''Access-Control-Allow-Origin'' \<mapsto> ''notmyidea.org'',
       ''Access-Control-Allow-Methods'' \<mapsto> ''GET,HEAD,PUT'',
       ''Access-Control-Allow-Headers'' \<mapsto> ''X-My-Header,X-Other'']"
proof -
  let ?r = "make_request (verb ''OPTIONS'')
      [(''Origin'', ''notmyidea.org''), (''Access-Control-Request-Method'', ''GET'')]"
  have h1: "request.headers ?r ''Origin'' = Some ''notmyidea.org''"
    and h2: "request.headers ?r ''Access-Control-Request-Method'' = Some ''GET''"
    and e: "response.headers (response ?r) = Map.empty"
    by (simp_all add: make_request_def empty_response_def)
  have n1: "''notmyidea.org'' \<noteq> []" and n2: "''GET'' \<noteq> []"
    by simp_all
  have f: "fnmatchcase ''notmyidea.org'' ''notmyidea.org''"
    by (simp add: fnmatchcase_literal literal_def)
  note t = preflight_response_headers [OF h1 n1 h2 n2, of example_service]
  have "response.headers (response (snd (preflight_view example_service ?r))) =
      [''Access-Control-Allow-Headers'' \<mapsto> ''X-My-Header, X-Other'',
       ''Access-Control-Allow-Methods'' \<mapsto> ''GET,HEAD,PUT'',
       ''Access-Control-Max-Age'' \<mapsto> ''3600'']"
    unfolding t [THEN conjunct1]
    by (simp add: Let_def e str_3600 example_service_def)
  moreover have "response.headers (response (snd (options_view example_service ?r))) =
      [''Access-Control-Allow-Origin'' \<mapsto> ''notmyidea.org'',
       ''Access-Control-Allow-Methods'' \<mapsto> ''GET,HEAD,PUT'',
       ''Access-Control-Allow-Headers'' \<mapsto> ''X-My-Header,X-Other'']"
    unfolding t [THEN conjunct2, THEN conjunct1]
    using f by (simp add: Let_def e example_service_def)
  ultimately show ?thesis
    using h1 h2 by simp
qed

text \<open>
  As first stated, for every handler and with the headers only required to be there, the
  statement fails twice. With an Origin header that is there but empty,
  \<^verbatim>\<open>_preflight_view\<close> returns before it sets anything. And for a request with both headers
  and a method whose max age is 3600, \<^verbatim>\<open>_options_view\<close> joins the supported headers without
  a space and sets no Access-Control-Max-Age.
\<close>

theorem preflight_response_headers_counterexample:
  "request.headers (make_request (verb ''OPTIONS'')
      [(''Origin'', []), (''Access-Control-Request-Method'', ''GET'')]) ''Origin'' = Some []
   \<and> request.headers (make_request (verb ''OPTIONS'')
      [(''Origin'', []), (''Access-Control-Request-Method'', ''GET'')])
      ''Access-Control-Request-Method'' = Some ''GET''
   \<and> response.headers (response (snd (preflight_view example_service
        (make_request (verb ''OPTIONS'')
          [(''Origin'', []), (''Access-Control-Request-Method'', ''GET'')]))))
        ''Access-Control-Allow-Headers'' = None
   \<and> request.headers (make_request (verb ''OPTIONS'')
      [(''Origin'', ''notmyidea.org''), (''Access-Control-Request-Method'', ''GET'')])
      ''Origin'' = Some ''notmyidea.org''
   \<and> request.headers (make_request (verb ''OPTIONS'')
      [(''Origin'', ''notmyidea.org''), (''Access-Control-Request-Method'', ''GET'')])
      ''Access-Control-Request-Method'' = Some ''GET''
   \<and> join '', '' (cors_supported_headers example_service) = ''X-My-Header, X-Other''
   \<and> cors_max_age_for example_service ''GET'' = Some 3600
   \<and> response.headers (response (snd (options_view example_service
        (make_request (verb ''OPTIONS'')
          [(''Origin'', ''notmyidea.org''), (''Access-Control-Request-Method'', ''GET'')]))))
        ''Access-Control-Allow-Headers'' = Some ''X-My-Header,X-Other''
   \<and> response.headers (response (snd (options_view example_service
        (make_request (verb ''OPTIONS'')
          [(''Origin'', ''notmyidea.org''), (''Access-Control-Request-Method'', ''GET'')]))))
        ''Access-Control-Max-Age'' = None"
proof -
  let ?emp = "make_request (verb ''OPTIONS'')
      [(''Origin'', []), (''Access-Control-Request-Method'', ''GET'')]"
  let ?r = "make_request (verb ''OPTIONS'')
      [(''Origin'', ''notmyidea.org''), (''Access-Control-Request-Method'', ''GET'')]"
  have a: "request.headers ?emp ''Origin'' = Some []"
    "request.headers ?emp ''Access-Control-Request-Method'' = Some ''GET''"
    "response.headers (response (snd (preflight_view example_service ?emp)))
       ''Access-Control-Allow-Headers'' = None"
    by (simp_all add: make_request_def preflight_view_def errors_add_eq empty_response_def)
  have h1: "request.headers ?r ''Origin'' = Some ''notmyidea.org''"
    and h2: "request.headers ?r ''Access-Control-Request-Method'' = Some ''GET''"
    and e: "response.headers (response ?r) = Map.empty"
    by (simp_all add: make_request_def empty_response_def)
  have n1: "''notmyidea.org'' \<noteq> []" and n2: "''GET'' \<noteq> []"
    by simp_all
  have s: "join '', '' (cors_supported_headers example_service) = ''X-My-Header, X-Other''"
    "cors_max_age_for example_service ''GET'' = Some 3600"
    by (simp_all add: example_service_def)
  have o: "response.headers (response (snd (options_view example_service ?r)))
       ''Access-Control-Allow-Headers'' = Some ''X-My-Header,X-Other''"
    "response.headers (response (snd (options_view example_service ?r)))
       ''Access-Control-Max-Age'' = None"
    unfolding options_view_present [OF h1 n1 h2 n2]
    by (simp_all add: Let_def e example_service_def)
  show ?thesis
    using a h1 h2 s o by simp
qed

text \<open>
  C5, for an Origin and an Access-Control-Request-Method that are not empty. The view
  runs to its end and returns \<^verbatim>\<open>'ok'\<close>, whether it recorded errors or not. Every check has
  then been made and every header set: the request it leaves has the errors that were
  there before, then the error for the method when the method is not supported, then
  one error for each requested header that is not supported, and its response has the
  headers of the preflight answer. Nothing else of the request changes. The view is a
  total function: it raises nothing. The older \<^verbatim>\<open>_options_view\<close> of pyramidhook.py returns
  \<^verbatim>\<open>'ok'\<close> in the same way, after its own checks, the check of the origin among them.
\<close>

theorem preflight_returns_ok:
  assumes "request.headers req ''Origin'' = Some origin" and "origin \<noteq> []"
    and "request.headers req ''Access-Control-Request-Method'' = Some m" and "m \<noteq> []"
  shows "preflight_view svc req =
     (Some ''ok'',
      req\<lparr>errors := errors req @
            (if m \<in> set (cors_supported_methods svc) then [] else [MethodNotAllowed]) @
            map HeaderNotAllowed
              (filter (\<lambda>h. h \<notin> set (cors_supported_headers svc))
                 (case request.headers req ''Access-Control-Request-Headers'' of
                    None \<Rightarrow> [] | Some v \<Rightarrow> split v)),
          response := (response req)\<lparr>response.headers :=
            (let h = (response.headers (response req))
                       (''Access-Control-Allow-Headers'' \<mapsto>
                          join '', '' (cors_supported_headers svc),
                        ''Access-Control-Allow-Methods'' \<mapsto>
                          join '','' (cors_supported_methods svc))
             in case cors_max_age_for svc m of
                  None \<Rightarrow> h
                | Some max_age \<Rightarrow> h(''Access-Control-Max-Age'' \<mapsto> str max_age))\<rparr>\<rparr>)
   \<and> fst (options_view svc req) = Some ''ok''
   \<and> errors (snd (options_view svc req)) =
       errors req @
       (if \<exists>pat\<in>set (cors_supported_origins svc). fnmatchcase origin pat then []
        else [(OriginNotAllowed origin)\<lparr>location := ''headers''\<rparr>]) @
       (if m \<in> set (cors_supported_methods svc) then []
        else [MethodNotAllowed\<lparr>location := ''headers''\<rparr>]) @
       map (\<lambda>h. (HeaderNotAllowed h)\<lparr>location := ''headers''\<rparr>)
         (filter (\<lambda>h. h \<notin> set (cors_supported_headers svc))
            (case request.headers req ''Access-Control-Request-Headers'' of
               None \<Rightarrow> [] | Some v \<Rightarrow> split v))"
proof -
  have p: "preflight_view svc req = preflight_checks svc m req"
    using assms by (rule preflight_view_present)
  show ?thesis
    unfolding p preflight_checks_eq options_view_present [OF assms] by simp
qed

theorem preflight_returns_ok_witness:
  "request.headers (make_request (verb ''OPTIONS'')
      [(''Origin'', ''lolnet.org''), (''Access-Control-Request-Method'', ''DELETE''),
       (''Access-Control-Request-Headers'', ''X-Bad'')])
     ''Origin'' = Some ''lolnet.org''
   \<and> ''lolnet.org'' \<noteq> []
   \<and> request.headers (make_request (verb ''OPTIONS'')
      [(''Origin'', ''lolnet.org''), (''Access-Control-Request-Method'', ''DELETE''),
       (''Access-Control-Request-Headers'', ''X-Bad'')])
     ''Access-Control-Request-Method'' = Some ''DELETE''
   \<and> ''DELETE'' \<noteq> []
   \<and> fst (preflight_view example_service (make_request (verb ''OPTIONS'')
      [(''Origin'', ''lolnet.org''), (''Access-Control-Request-Method'', ''DELETE''),
       (''Access-Control-Request-Headers'', ''X-Bad'')])) = Some ''ok''
   \<and> errors (snd (preflight_view example_service (make_request (verb ''OPTIONS'')
      [(''Origin'', ''lolnet.org''), (''Access-Control-Request-Method'', ''DELETE''),
       (''Access-Control-Request-Headers'', ''X-Bad'')]))) =
      [MethodNotAllowed, HeaderNotAllowed ''X-Bad'']
   \<and> response.headers (response (snd (preflight_view example_service
        (make_request (verb ''OPTIONS'')
      [(''Origin'', ''lolnet.org''), (''Access-Control-Request-Method'', ''DELETE''),
       (''Access-Control-Request-Headers'', ''X-Bad'')])))) =
      [''Access-Control-Allow-Headers'' \<mapsto> ''X-My-Header, X-Other'',
       ''Access-Control-Allow-Methods'' \<mapsto> ''GET,HEAD,PUT'']
   \<and> fst (options_view example_service (make_request (verb ''OPTIONS'')
      [(''Origin'', ''lolnet.org''), (''Access-Control-Request-Method'', ''DELETE''),
       (''Access-Control-Request-Headers'', ''X-Bad'')])) = Some ''ok''"
proof -
  let ?r = "make_request (verb ''OPTIONS'')
      [(''Origin'', ''lolnet.org''), (''Access-Control-Request-Method'', ''DELETE''),
       (''Access-Control-Request-Headers'', ''X-Bad'')]"
  have h1: "request.headers ?r ''Origin'' = Some ''lolnet.org''"
    and h2: "request.headers ?r ''Access-Control-Request-Method'' = Some ''DELETE''"
    and h3: "request.headers ?r ''Access-Control-Request-Headers'' = Some ''X-Bad''"
    and e: "errors ?r = []" "response.headers (response ?r) = Map.empty"
    by (simp_all add: make_request_def empty_response_def)
  have n1: "''lolnet.org'' \<noteq> []" and n2: "''DELETE'' \<noteq> []"
    by simp_all
  have sp: "split ''X-Bad'' = [''X-Bad'']"
    by code_simp
  note t = preflight_returns_ok [OF h1 n1 h2 n2, of example_service]
  have "fst (preflight_view example_service ?r) = Some ''ok''"
    unfolding t [THEN conjunct1] by simp
  moreover have "errors (snd (preflight_view example_service ?r)) =
      [MethodNotAllowed, HeaderNotAllowed ''X-Bad'']"
    unfolding t [THEN conjunct1] by (simp add: h3 e sp example_service_def)
  moreover have "response.headers (response (snd (preflight_view example_service ?r))) =
      [''Access-Control-Allow-Headers'' \<mapsto> ''X-My-Header, X-Other'',
       ''Access-Control-Allow-Methods'' \<mapsto> ''GET,HEAD,PUT'']"
    unfolding t [THEN conjunct1] by (simp add: Let_def e example_service_def)
  moreover have "fst (options_view example_service ?r) = Some ''ok''"
    by (rule t [THEN conjunct2, THEN conjunct1])
  ultimately show ?thesis
    using h1 h2 by simp
qed

text \<open>
  With an Origin header that is there but empty, the view returns early, with \<^verbatim>\<open>None\<close>.
\<close>

theorem preflight_returns_ok_counterexample:
  "request.headers (make_request (verb ''OPTIONS'')
      [(''Origin'', []), (''Access-Control-Request-Method'', ''GET'')]) ''Origin'' = Some []
   \<and> request.headers (make_request (verb ''OPTIONS'')
      [(''Origin'', []), (''Access-Control-Request-Method'', ''GET'')])
      ''Access-Control-Request-Method'' = Some ''GET''
   \<and> fst (preflight_view example_service (make_request (verb ''OPTIONS'')
        [(''Origin'', []), (''Access-Control-Request-Method'', ''GET'')])) = None"
  by (simp add: make_request_def preflight_view_def errors_add_eq)

text \<open>
  C9, for an Origin and an Access-Control-Request-Method that are not empty. The view of
  cors.py reads three things of the service, the supported headers, the supported methods
  and the max age: two services that agree on them give the same result, whatever their
  origin patterns. Nor does the result depend on which value the Origin header has, as
  long as it is not empty. Every error it records is the method
  error or a header error, none is an origin error, and it sets
  Access-Control-Allow-Headers and Access-Control-Allow-Methods in every case. The check
  of the origin is the validator's.
\<close>

theorem preflight_ignores_origin:
  assumes "request.headers req ''Origin'' = Some origin" and "origin \<noteq> []"
    and "request.headers req ''Access-Control-Request-Method'' = Some m" and "m \<noteq> []"
  shows "let (result, req') = preflight_view svc req;
             recorded = drop (length (errors req)) (errors req')
         in (\<forall>svc'. cors_supported_headers svc' = cors_supported_headers svc \<and>
                   cors_supported_methods svc' = cors_supported_methods svc \<and>
                   cors_max_age_for svc' = cors_max_age_for svc \<longrightarrow>
                preflight_view svc' req = (result, req'))
          \<and> (\<forall>origin'. origin' \<noteq> [] \<longrightarrow>
                preflight_view svc
                  (req\<lparr>request.headers := (request.headers req)(''Origin'' \<mapsto> origin')\<rparr>) =
                (result, req'\<lparr>request.headers := (request.headers req)(''Origin'' \<mapsto> origin')\<rparr>))
          \<and> (\<forall>e \<in> set recorded. e = MethodNotAllowed \<or> (\<exists>h. e = HeaderNotAllowed h))
          \<and> (\<forall>origin'. OriginNotAllowed origin' \<notin> set recorded)
          \<and> response.headers (response req') ''Access-Control-Allow-Headers'' =
               Some (join '', '' (cors_supported_headers svc))
          \<and> response.headers (response req') ''Access-Control-Allow-Methods'' =
               Some (join '','' (cors_supported_methods svc))"
proof -
  have a: "preflight_view svc' req =
           (fst (preflight_view svc req), snd (preflight_view svc req))"
    if "cors_supported_headers svc' = cors_supported_headers svc"
      and "cors_supported_methods svc' = cors_supported_methods svc"
      and "cors_max_age_for svc' = cors_max_age_for svc" for svc'
  proof -
    have "preflight_checks svc' m req = preflight_checks svc m req"
      unfolding preflight_checks_eq that ..
    then show ?thesis
      using assms by (simp add: preflight_view_present)
  qed
  have b: "preflight_view svc
             (req\<lparr>request.headers := (request.headers req)(''Origin'' \<mapsto> origin')\<rparr>) =
           (fst (preflight_view svc req),
            (snd (preflight_view svc req))
              \<lparr>request.headers := (request.headers req)(''Origin'' \<mapsto> origin')\<rparr>)"
    if "origin' \<noteq> []" for origin'
  proof -
    let ?r = "req\<lparr>request.headers := (request.headers req)(''Origin'' \<mapsto> origin')\<rparr>"
    have "request.headers ?r ''Origin'' = Some origin'"
      and "request.headers ?r ''Access-Control-Request-Method'' = Some m"
      using assms(3) by simp_all
    then have "preflight_view svc ?r = preflight_checks svc m ?r"
      using that assms(4) by (intro preflight_view_present) auto
    then show ?thesis
      using assms by (simp add: preflight_view_present preflight_checks_eq)
  qed
  have c: "drop (length (errors req)) (errors (snd (preflight_view svc req))) =
      (if m \<in> set (cors_supported_methods svc) then [] else [MethodNotAllowed]) @
      map HeaderNotAllowed
        (filter (\<lambda>h. h \<notin> set (cors_supported_headers svc))
           (case request.headers req ''Access-Control-Request-Headers'' of
              None \<Rightarrow> [] | Some v \<Rightarrow> split v))"
    using assms by (simp add: preflight_view_present preflight_checks_eq)
  have d: "\<forall>e \<in> set (drop (length (errors req)) (errors (snd (preflight_view svc req)))).
             e = MethodNotAllowed \<or> (\<exists>h. e = HeaderNotAllowed h)"
    unfolding c by auto
  have e: "OriginNotAllowed origin' \<notin>
             set (drop (length (errors req)) (errors (snd (preflight_view svc req))))"
    for origin'
    using d Origin_neq_Method Origin_neq_Header by blast
  have f: "response.headers (response (snd (preflight_view svc req)))
             ''Access-Control-Allow-Headers'' = Some (join '', '' (cors_supported_headers svc))"
    "response.headers (response (snd (preflight_view svc req)))
             ''Access-Control-Allow-Methods'' = Some (join '','' (cors_supported_methods svc))"
    using assms
    by (simp_all add: preflight_view_present preflight_checks_eq Let_def split: option.splits)
  show ?thesis
    unfolding Let_def split_beta
  proof (intro conjI allI impI)
    fix svc' :: service
    assume "cors_supported_headers svc' = cors_supported_headers svc \<and>
            cors_supported_methods svc' = cors_supported_methods svc \<and>
            cors_max_age_for svc' = cors_max_age_for svc"
    then show "preflight_view svc' req =
               (fst (preflight_view svc req), snd (preflight_view svc req))"
      using a by blast
  next
    fix origin' :: string
    assume "origin' \<noteq> []"
    then show "preflight_view svc
                 (req\<lparr>request.headers := (request.headers req)(''Origin'' \<mapsto> origin')\<rparr>) =
               (fst (preflight_view svc req),
                (snd (preflight_view svc req))
                  \<lparr>request.headers := (request.headers req)(''Origin'' \<mapsto> origin')\<rparr>)"
      by (rule b)
  qed (use d e f in blast)+
qed

theorem preflight_ignores_origin_witness:
  "request.headers (make_request (verb ''OPTIONS'')
      [(''Origin'', ''lolnet.org''), (''Access-Control-Request-Method'', ''GET'')])
     ''Origin'' = Some ''lolnet.org''
   \<and> ''lolnet.org'' \<noteq> []
   \<and> request.headers (make_request (verb ''OPTIONS'')
      [(''Origin'', ''lolnet.org''), (''Access-Control-Request-Method'', ''GET'')])
     ''Access-Control-Request-Method'' = Some ''GET''
   \<and> ''GET'' \<noteq> []
   \<and> \<not> fnmatchcase ''lolnet.org'' ''notmyidea.org''
   \<and> \<not> fnmatchcase ''lolnet.org'' ''*.example.com''
   \<and> OriginNotAllowed ''lolnet.org'' \<notin> set (errors (snd (preflight_view example_service
        (make_request (verb ''OPTIONS'')
          [(''Origin'', ''lolnet.org''), (''Access-Control-Request-Method'', ''GET'')]))))
   \<and> response.headers (response (snd (preflight_view example_service
        (make_request (verb ''OPTIONS'')
          [(''Origin'', ''lolnet.org''), (''Access-Control-Request-Method'', ''GET'')]))))
        ''Access-Control-Allow-Headers'' = Some ''X-My-Header, X-Other''"
proof -
  let ?r = "make_request (verb ''OPTIONS'')
      [(''Origin'', ''lolnet.org''), (''Access-Control-Request-Method'', ''GET'')]"
  have h1: "request.headers ?r ''Origin'' = Some ''lolnet.org''"
    and h2: "request.headers ?r ''Access-Control-Request-Method'' = Some ''GET''"
    and e: "errors ?r = []"
    by (simp_all add: make_request_def)
  have n: "\<not> fnmatchcase ''lolnet.org'' ''notmyidea.org''"
    "\<not> fnmatchcase ''lolnet.org'' ''*.example.com''"
    by (simp_all add: fnmatchcase_literal fnmatchcase_star_literal literal_def)
  have n1: "''lolnet.org'' \<noteq> []" and n2: "''GET'' \<noteq> []"
    by simp_all
  note t = preflight_ignores_origin [OF h1 n1 h2 n2, of example_service,
      unfolded Let_def split_beta]
  have "OriginNotAllowed ''lolnet.org'' \<notin>
          set (drop (length (errors ?r)) (errors (snd (preflight_view example_service ?r))))"
    using t by blast
  then have o: "OriginNotAllowed ''lolnet.org'' \<notin>
          set (errors (snd (preflight_view example_service ?r)))"
    by (simp add: e)
  have "response.headers (response (snd (preflight_view example_service ?r)))
          ''Access-Control-Allow-Headers'' =
        Some (join '', '' (cors_supported_headers example_service))"
    using t by blast
  then have a: "response.headers (response (snd (preflight_view example_service ?r)))
          ''Access-Control-Allow-Headers'' = Some ''X-My-Header, X-Other''"
    by (simp add: example_service_def)
  show ?thesis
    using h1 h2 n o a by simp
qed

text \<open>
  With an Origin header that is there but empty, the one error recorded is the error for
  a missing Origin header, and the two headers are not set.
\<close>

theorem preflight_ignores_origin_counterexample:
  "request.headers (make_request (verb ''OPTIONS'')
      [(''Origin'', []), (''Access-Control-Request-Method'', ''GET'')]) ''Origin'' = Some []
   \<and> request.headers (make_request (verb ''OPTIONS'')
      [(''Origin'', []), (''Access-Control-Request-Method'', ''GET'')])
      ''Access-Control-Request-Method'' = Some ''GET''
   \<and> errors (snd (preflight_view example_service (make_request (verb ''OPTIONS'')
        [(''Origin'', []), (''Access-Control-Request-Method'', ''GET'')]))) =
      [MissingHeader ''Origin'']
   \<and> MissingHeader ''Origin'' \<noteq> MethodNotAllowed
   \<and> name (MissingHeader ''Origin'') \<noteq> ''Access-Control-Request-Headers''
   \<and> response.headers (response (snd (preflight_view example_service
        (make_request (verb ''OPTIONS'')
          [(''Origin'', []), (''Access-Control-Request-Method'', ''GET'')]))))
        ''Access-Control-Allow-Methods'' = None"
  by (simp add: make_request_def preflight_view_def errors_add_eq MissingHeader_def
      MethodNotAllowed_def empty_response_def)

section \<open>The response filter\<close>

lemma filter_headers:
  "response.headers (cors_filter svc resp req) =
     (let h = (if cors_support_credentials svc (get_method req) \<and>
                  response.headers resp ''Access-Control-Allow-Credentials'' = None
               then (response.headers resp)(''Access-Control-Allow-Credentials'' \<mapsto> ''true'')
               else response.headers resp)
      in if is_not (request_method req) OPTIONS \<and> cors_supported_headers svc \<noteq> []
         then h(''Access-Control-Expose-Headers'' \<mapsto> join '', '' (cors_supported_headers svc))
         else h)"
  by (simp add: cors_filter_def set_header_def Let_def domIff)

text \<open>
  What the filter does to Access-Control-Expose-Headers: it sets the header when the
  method of the request is not the very object \<open>OPTIONS\<close> and there are supported
  headers, and leaves it alone otherwise. The characters of the method play no part.
\<close>

lemma filter_expose_headers:
  "response.headers (cors_filter svc resp req) ''Access-Control-Expose-Headers'' =
     (if is_not (request_method req) OPTIONS \<and> cors_supported_headers svc \<noteq> []
      then Some (join '', '' (cors_supported_headers svc))
      else response.headers resp ''Access-Control-Expose-Headers'')"
  by (simp add: filter_headers Let_def)

lemma filter_expose_headers_constant:
  "response.headers
     (cors_filter svc resp (req\<lparr>request_method := OPTIONS\<rparr>)) ''Access-Control-Expose-Headers'' =
   response.headers resp ''Access-Control-Expose-Headers''"
  by (simp add: filter_expose_headers is_not_def)

text \<open>
  C6. The specification has the filter set Access-Control-Expose-Headers when the verb of
  the request is not OPTIONS and there are supported headers, and never for an OPTIONS
  request. The filter tests \<^verbatim>\<open>request.method is not 'OPTIONS'\<close>, an identity test where
  \<^verbatim>\<open>_get_method\<close> writes \<^verbatim>\<open>==\<close>. For a request whose method has the characters OPTIONS in a
  string object of its own, the test succeeds and the filter sets the header on a
  response that did not have it: the code does not keep the property.
\<close>

theorem filter_exposes_headers_on_options:
  "chars (request_method (make_request (verb ''OPTIONS'')
      [(''Origin'', ''notmyidea.org''), (''Access-Control-Request-Method'', ''GET'')])) = ''OPTIONS''
   \<and> response.headers empty_response ''Access-Control-Expose-Headers'' = None
   \<and> response.headers (cors_filter example_service empty_response
        (make_request (verb ''OPTIONS'')
          [(''Origin'', ''notmyidea.org''), (''Access-Control-Request-Method'', ''GET'')]))
        ''Access-Control-Expose-Headers'' = Some ''X-My-Header, X-Other''"
  by (simp add: filter_expose_headers make_request_def verb_def is_not_def OPTIONS_def
      example_service_def empty_response_def)

text \<open>
  C7. After the filter, Access-Control-Allow-Credentials is \<^verbatim>\<open>true\<close> when the service
  supports credentials for the effective method and the response did not carry the
  header, and is what it was otherwise. Applying the filter to its own result, for the
  same request, changes nothing.
\<close>

theorem filter_credentials:
  "response.headers (cors_filter svc resp req) ''Access-Control-Allow-Credentials'' =
     (if cors_support_credentials svc (get_method req) \<and>
         response.headers resp ''Access-Control-Allow-Credentials'' = None
      then Some ''true''
      else response.headers resp ''Access-Control-Allow-Credentials'')
   \<and> cors_filter svc (cors_filter svc resp req) req = cors_filter svc resp req"
proof -
  have "response.headers (cors_filter svc (cors_filter svc resp req) req) =
        response.headers (cors_filter svc resp req)"
    by (auto simp: filter_headers [of svc "cors_filter svc resp req"] filter_headers [of svc resp]
        Let_def)
  then have "cors_filter svc (cors_filter svc resp req) req = cors_filter svc resp req"
    by (intro response.equality) simp_all
  then show ?thesis
    by (simp add: filter_headers Let_def)
qed

theorem filter_credentials_witness:
  "response.headers (cors_filter example_service empty_response
      (make_request (verb ''GET'') [(''Origin'', ''notmyidea.org'')]))
      ''Access-Control-Allow-Credentials'' = Some ''true''
   \<and> response.headers (cors_filter example_service
        (cors_filter example_service empty_response
          (make_request (verb ''GET'') [(''Origin'', ''notmyidea.org'')]))
        (make_request (verb ''GET'') [(''Origin'', ''notmyidea.org'')])) =
      [''Access-Control-Allow-Credentials'' \<mapsto> ''true'',
       ''Access-Control-Expose-Headers'' \<mapsto> ''X-My-Header, X-Other'']"
proof -
  let ?r = "make_request (verb ''GET'') [(''Origin'', ''notmyidea.org'')]"
  have g: "get_method ?r = ''GET''" and i: "is_not (request_method ?r) OPTIONS"
    by (simp_all add: get_method_def make_request_def verb_def is_not_def OPTIONS_def)
  have once: "response.headers (cors_filter example_service empty_response ?r) =
      [''Access-Control-Allow-Credentials'' \<mapsto> ''true'',
       ''Access-Control-Expose-Headers'' \<mapsto> ''X-My-Header, X-Other'']"
    by (simp add: filter_headers g i example_service_def empty_response_def)
  show ?thesis
    using filter_credentials [of example_service empty_response ?r] once
    by (simp add: g example_service_def empty_response_def)
qed

text \<open>
  C10. The credentials branch does not look at the verb. For a request whose verb is
  OPTIONS and whose effective method has credentials enabled, the header is \<^verbatim>\<open>true\<close> after
  the filter unless the response carried it already, and any request with the same
  effective method, an ordinary one included, gets the same value.
\<close>

theorem filter_credentials_on_options:
  assumes "chars (request_method req) = ''OPTIONS''"
    and "cors_support_credentials svc (get_method req)"
  shows "response.headers (cors_filter svc resp req) ''Access-Control-Allow-Credentials'' =
     (case response.headers resp ''Access-Control-Allow-Credentials'' of
        None \<Rightarrow> Some ''true'' | Some v \<Rightarrow> Some v)
   \<and> (\<forall>req'. get_method req' = get_method req \<longrightarrow>
        response.headers (cors_filter svc resp req') ''Access-Control-Allow-Credentials'' =
        response.headers (cors_filter svc resp req) ''Access-Control-Allow-Credentials'')"
  using assms by (auto simp: filter_headers Let_def split: option.splits)

theorem filter_credentials_on_options_witness:
  "chars (request_method (make_request OPTIONS [(''Access-Control-Request-Method'', ''GET'')]))
     = ''OPTIONS''
   \<and> cors_support_credentials example_service
        (get_method (make_request OPTIONS [(''Access-Control-Request-Method'', ''GET'')]))
   \<and> response.headers (cors_filter example_service empty_response
        (make_request OPTIONS [(''Access-Control-Request-Method'', ''GET'')])) =
      [''Access-Control-Allow-Credentials'' \<mapsto> ''true'']"
proof -
  let ?r = "make_request OPTIONS [(''Access-Control-Request-Method'', ''GET'')]"
  have h1: "chars (request_method ?r) = ''OPTIONS''"
    by (simp add: make_request_def OPTIONS_def)
  have g: "get_method ?r = ''GET''"
    by (simp add: get_method_def make_request_def OPTIONS_def)
  have h2: "cors_support_credentials example_service (get_method ?r)"
    by (simp add: g example_service_def)
  have i: "\<not> is_not (request_method ?r) OPTIONS"
    by (simp add: make_request_def is_not_def)
  have c: "response.headers (cors_filter example_service empty_response ?r)
             ''Access-Control-Allow-Credentials'' = Some ''true''"
    using filter_credentials_on_options [OF h1 h2, of empty_response]
    by (simp add: empty_response_def)
  have "response.headers (cors_filter example_service empty_response ?r) =
      [''Access-Control-Allow-Credentials'' \<mapsto> ''true'']"
    using c h2 by (simp add: filter_headers i empty_response_def)
  then show ?thesis
    using h1 h2 by simp
qed

end
